theory Spec2Isabelle
  imports Complex_Main "HOL-Library.AList"
begin

section \<open>JavaScript numbers\<close>

text \<open>
  The handlers of \<^verbatim>\<open>src/index.js\<close> compute with JavaScript numbers. A number is
  modelled as \<open>NaN\<close>, one of the two infinities, the negative zero, or a finite value
  carried as a real, \<open>Fin 0\<close> being the positive zero. The special values, the sign of a
  zero and the branches they cause are kept as IEEE-754 and the language standard fix
  them; rounding and overflow are idealised away: a finite result is the exact real, and
  a function whose exact value at a non-zero argument is zero gives the positive zero.
\<close>

datatype jsnum = NaN | NegInf | PosInf | NegZero | Fin real

definition Math_PI :: jsnum where
  "Math_PI = Fin pi"

definition isNaN :: "jsnum \<Rightarrow> bool" where
  "isNaN n = (n = NaN)"

fun is_zero :: "jsnum \<Rightarrow> bool" where
  "is_zero NegZero = True"
| "is_zero (Fin a) = (a = 0)"
| "is_zero n = False"

fun infinite_num :: "jsnum \<Rightarrow> bool" where
  "infinite_num NegInf = True"
| "infinite_num PosInf = True"
| "infinite_num n = False"

text \<open>The sign bit of a number other than \<open>NaN\<close>.\<close>

fun negative :: "jsnum \<Rightarrow> bool" where
  "negative NegInf = True"
| "negative NegZero = True"
| "negative (Fin a) = (a < 0)"
| "negative n = False"

fun value_of :: "jsnum \<Rightarrow> real" where
  "value_of (Fin a) = a"
| "value_of n = 0"

definition signed_zero :: "bool \<Rightarrow> jsnum" where
  "signed_zero neg = (if neg then NegZero else Fin 0)"

definition signed_inf :: "bool \<Rightarrow> jsnum" where
  "signed_inf neg = (if neg then NegInf else PosInf)"

text \<open>Truthiness of a number, as \<^verbatim>\<open>||\<close> and \<^verbatim>\<open>!\<close> read it: \<open>NaN\<close> and the two
  zeros are falsy.\<close>

definition num_truthy :: "jsnum \<Rightarrow> bool" where
  "num_truthy n = (n \<noteq> NaN \<and> \<not> is_zero n)"

text \<open>The product and the quotient: the sign of the result is the exclusive or of the
  signs, also when the result is a zero or an infinity.\<close>

definition js_times :: "jsnum \<Rightarrow> jsnum \<Rightarrow> jsnum" where
  "js_times a b =
     (if a = NaN \<or> b = NaN then NaN
      else if (infinite_num a \<and> is_zero b) \<or> (is_zero a \<and> infinite_num b) then NaN
      else if infinite_num a \<or> infinite_num b then signed_inf (negative a \<noteq> negative b)
      else if is_zero a \<or> is_zero b then signed_zero (negative a \<noteq> negative b)
      else Fin (value_of a * value_of b))"

definition js_divide :: "jsnum \<Rightarrow> jsnum \<Rightarrow> jsnum" where
  "js_divide a b =
     (if a = NaN \<or> b = NaN then NaN
      else if (infinite_num a \<and> infinite_num b) \<or> (is_zero a \<and> is_zero b) then NaN
      else if infinite_num a \<or> is_zero b then signed_inf (negative a \<noteq> negative b)
      else if is_zero a \<or> infinite_num b then signed_zero (negative a \<noteq> negative b)
      else Fin (value_of a / value_of b))"

fun js_neg :: "jsnum \<Rightarrow> jsnum" where
  "js_neg NaN = NaN"
| "js_neg NegInf = PosInf"
| "js_neg PosInf = NegInf"
| "js_neg NegZero = Fin 0"
| "js_neg (Fin a) = (if a = 0 then NegZero else Fin (- a))"

text \<open>The comparison \<^verbatim>\<open>a <= b\<close>: false as soon as one side is \<open>NaN\<close>; the two zeros
  are equal.\<close>

definition js_le :: "jsnum \<Rightarrow> jsnum \<Rightarrow> bool" where
  "js_le a b =
     (if a = NaN \<or> b = NaN then False
      else if a = NegInf \<or> b = PosInf then True
      else if a = PosInf \<or> b = NegInf then False
      else value_of a \<le> value_of b)"

fun Math_log2 :: "jsnum \<Rightarrow> jsnum" where
  "Math_log2 NaN = NaN"
| "Math_log2 NegInf = NaN"
| "Math_log2 PosInf = PosInf"
| "Math_log2 NegZero = NegInf"
| "Math_log2 (Fin a) = (if a < 0 then NaN else if a = 0 then NegInf else Fin (log 2 a))"

fun Math_floor :: "jsnum \<Rightarrow> jsnum" where
  "Math_floor (Fin a) = Fin (of_int \<lfloor>a\<rfloor>)"
| "Math_floor n = n"

text \<open>\<^verbatim>\<open>Math.max(a, b)\<close>: \<open>NaN\<close> as soon as one argument is; of the two zeros the
  positive one is the larger.\<close>

definition Math_max :: "jsnum \<Rightarrow> jsnum \<Rightarrow> jsnum" where
  "Math_max a b =
     (if a = NaN \<or> b = NaN then NaN
      else if \<not> js_le b a then b
      else if \<not> js_le a b then a
      else if a = NegZero then b
      else a)"

fun Math_cos :: "jsnum \<Rightarrow> jsnum" where
  "Math_cos (Fin a) = Fin (cos a)"
| "Math_cos NegZero = Fin 1"
| "Math_cos n = NaN"

fun Math_sin :: "jsnum \<Rightarrow> jsnum" where
  "Math_sin (Fin a) = Fin (sin a)"
| "Math_sin NegZero = NegZero"
| "Math_sin n = NaN"

fun Math_asin :: "jsnum \<Rightarrow> jsnum" where
  "Math_asin (Fin a) = (if a < - 1 \<or> 1 < a then NaN else Fin (arcsin a))"
| "Math_asin NegZero = NegZero"
| "Math_asin n = NaN"

text \<open>The angle of the point \<open>(x, y)\<close>, for finite arguments other than zero.\<close>

definition atan2 :: "real \<Rightarrow> real \<Rightarrow> real" where
  "atan2 y x =
     (if 0 < x then arctan (y / x)
      else if 0 \<le> y then arctan (y / x) + pi
      else arctan (y / x) - pi)"

text \<open>
  \<^verbatim>\<open>Math.atan2(y, x)\<close> with the cases the standard lists for zeros and infinities: a
  zero \<open>y\<close> gives a zero of its sign when \<open>x\<close> is positive (or the positive zero) and
  \<open>\<pi>\<close> of its sign when \<open>x\<close> is negative (or the negative zero); so
  \<^verbatim>\<open>Math.atan2(-0, x)\<close> is \<open>-\<pi>\<close> for \<open>x < 0\<close>.
\<close>

definition Math_atan2 :: "jsnum \<Rightarrow> jsnum \<Rightarrow> jsnum" where
  "Math_atan2 y x =
     (if y = NaN \<or> x = NaN then NaN
      else if is_zero y then
        (if negative x then (if negative y then Fin (- pi) else Fin pi)
         else signed_zero (negative y))
      else if infinite_num y then
        (if x = PosInf then (if negative y then Fin (- (pi / 4)) else Fin (pi / 4))
         else if x = NegInf then (if negative y then Fin (- (3 * pi / 4)) else Fin (3 * pi / 4))
         else (if negative y then Fin (- (pi / 2)) else Fin (pi / 2)))
      else if is_zero x then (if negative y then Fin (- (pi / 2)) else Fin (pi / 2))
      else if x = PosInf then signed_zero (negative y)
      else if x = NegInf then (if negative y then Fin (- pi) else Fin pi)
      else Fin (atan2 (value_of y) (value_of x)))"

section \<open>The arithmetic of the proximity query\<close>

text \<open>
  The handler of \<^verbatim>\<open>GET /map/features/:featureclass\<close> reads three query parameters
  with \<^verbatim>\<open>parseFloat\<close>. The model starts from the parsed numbers: \<^verbatim>\<open>parseFloat\<close>
  yields \<open>NaN\<close> for a parameter that is absent or does not start with a number.

  \<^verbatim>\<open>const radius = parseFloat(req.query.radius) || Math.PI / 2;\<close>
\<close>

definition radius_of :: "jsnum \<Rightarrow> jsnum" where
  "radius_of parsed = (if num_truthy parsed then parsed else js_divide Math_PI (Fin 2))"

text \<open>
  Lines 227 to 233: the round trip through the unit vector. The result is the pair
  \<^verbatim>\<open>[lng, lat]\<close> sent to the store.
\<close>

definition normalized :: "jsnum \<Rightarrow> jsnum \<Rightarrow> jsnum \<times> jsnum" where
  "normalized lng0 lat0 =
     (let phi = js_times (js_divide Math_PI (Fin 180)) lat0;
          lambda = js_times (js_divide Math_PI (Fin 180)) lng0;
          x = js_times (Math_cos phi) (Math_cos lambda);
          y = js_times (Math_cos phi) (Math_sin lambda);
          z = Math_sin phi;
          lat = js_times (Math_asin z) (js_divide (Fin 180) Math_PI);
          lng = js_times (Math_atan2 y x) (js_divide (Fin 180) Math_PI)
      in (lng, lat))"

text \<open>\<^verbatim>\<open>const radiusM = ( 20_000_000 / Math.PI ) * radius;\<close>\<close>

definition radiusM :: "jsnum \<Rightarrow> jsnum" where
  "radiusM radius = js_times (js_divide (Fin 20000000) Math_PI) radius"

text \<open>\<^verbatim>\<open>const zoom = Math.max(1, Math.floor(-Math.log2(radius / Math.PI)));\<close>\<close>

definition zoom :: "jsnum \<Rightarrow> jsnum" where
  "zoom radius = Math_max (Fin 1) (Math_floor (js_neg (Math_log2 (js_divide radius Math_PI))))"

text \<open>\<^verbatim>\<open>const tolerance = .18 * radius;\<close>\<close>

definition tolerance :: "jsnum \<Rightarrow> jsnum" where
  "tolerance radius = js_times (Fin 0.18) radius"

text \<open>
  The ranges the comment of line 226 gives for the normalised coordinates: a longitude in
  \<open>(-180, 180]\<close> and a latitude in \<open>[-90, 90]\<close>, read with the comparisons of the
  language.
\<close>

definition canonical_lng :: "jsnum \<Rightarrow> bool" where
  "canonical_lng lng = (lng \<noteq> NaN \<and> \<not> js_le lng (Fin (- 180)) \<and> js_le lng (Fin 180))"

definition canonical_lat :: "jsnum \<Rightarrow> bool" where
  "canonical_lat lat = (js_le (Fin (- 90)) lat \<and> js_le lat (Fin 90))"

section \<open>Values\<close>

text \<open>
  Request bodies, feature properties, geometries and stored documents are values parsed
  from JSON. An object is the list of its own properties in enumeration order; strings
  are lists of \<open>char\<close>. A property read walks the prototype chain, so it can also find a
  member of a built-in prototype: \<open>JFunction\<close> is a function built into the engine and
  \<open>JBuiltin\<close> a built-in object that is not callable, both given by name. A value parsed
  from JSON holds neither.
\<close>

datatype jsval =
    JUndefined
  | JNull
  | JBool bool
  | JNum jsnum
  | JStr string
  | JArr "jsval list"
  | JObj "(string \<times> jsval) list"
  | JFunction string
  | JBuiltin string

fun truthy :: "jsval \<Rightarrow> bool" where
  "truthy JUndefined = False"
| "truthy JNull = False"
| "truthy (JBool b) = b"
| "truthy (JNum n) = num_truthy n"
| "truthy (JStr s) = (s \<noteq> [])"
| "truthy v = True"

definition nullish :: "jsval \<Rightarrow> bool" where
  "nullish v = (v = JUndefined \<or> v = JNull)"

text \<open>\<^verbatim>\<open>typeof v === "object"\<close> holds of objects, arrays and \<^verbatim>\<open>null\<close>, not of
  functions.\<close>

fun typeof_object :: "jsval \<Rightarrow> bool" where
  "typeof_object JNull = True"
| "typeof_object (JArr xs) = True"
| "typeof_object (JObj kvs) = True"
| "typeof_object (JBuiltin b) = True"
| "typeof_object v = False"

text \<open>The values that are objects of the language (functions among them).\<close>

fun is_object :: "jsval \<Rightarrow> bool" where
  "is_object (JArr xs) = True"
| "is_object (JObj kvs) = True"
| "is_object (JFunction f) = True"
| "is_object (JBuiltin b) = True"
| "is_object v = False"

fun is_array :: "jsval \<Rightarrow> bool" where
  "is_array (JArr xs) = True"
| "is_array v = False"

fun elements :: "jsval \<Rightarrow> jsval list" where
  "elements (JArr xs) = xs"
| "elements v = []"

text \<open>A thrown error carries its message and the \<^verbatim>\<open>status\<close> the code may have set on
  it. For a \<^verbatim>\<open>TypeError\<close> raised by the engine the message text is the engine's own; the
  model writes a fixed text in its place.\<close>

datatype js_error = JsError (message: string) (status: "nat option")

definition TypeError :: js_error where
  "TypeError = JsError ''TypeError'' None"

subsection \<open>Array indices as property keys\<close>

definition digit_char :: "nat \<Rightarrow> char" where
  "digit_char d = ''0123456789'' ! d"

function show_nat :: "nat \<Rightarrow> string" where
  "show_nat n = (if n < 10 then [digit_char n] else show_nat (n div 10) @ [digit_char (n mod 10)])"
  by pat_completeness auto
termination
  by (relation "measure id") auto

declare show_nat.simps [simp del]

fun digits_val :: "nat \<Rightarrow> string \<Rightarrow> nat option" where
  "digits_val acc [] = Some acc"
| "digits_val acc (c # cs) =
     (if c \<in> set ''0123456789'' then digits_val (10 * acc + (of_char c - 48)) cs else None)"

text \<open>A key is an index when it is the decimal numeral of a natural number, written the
  way \<open>show_nat\<close> writes it (no sign, no leading zero).\<close>

definition index_of_key :: "string \<Rightarrow> nat option" where
  "index_of_key k =
     (case digits_val 0 k of
        None \<Rightarrow> None
      | Some n \<Rightarrow> if k \<noteq> [] \<and> show_nat n = k then Some n else None)"

section \<open>The environment\<close>

text \<open>
  A document of the store is the list of its fields, \<^verbatim>\<open>_id\<close> among them; a collection
  is a list of documents; the database maps a collection name to its documents (the empty
  list for a collection that does not exist) and records which collections carry the
  \<^verbatim>\<open>2dsphere\<close> index.
\<close>

type_synonym doc = "(string \<times> jsval) list"

record db =
  colls :: "string \<Rightarrow> doc list"
  indexed :: "string set"

text \<open>
  What the source leaves to its environment is a parameter of the model.

  \<^item> The JavaScript engine: \<open>builtin_member\<close> gives the members that a value other than
    an object parsed from JSON finds on its prototype chain (those of the built-in
    prototypes of arrays, strings, numbers, booleans and functions; their list depends on
    the version of the engine); \<open>rejects_write\<close> tells whether an assignment to a key
    throws for an object whose prototype is such a value (the key names a read-only member
    or a throwing accessor of the chain); \<open>number_text\<close> is the decimal text of a finite
    number and \<open>builtin_text\<close> the text of a built-in function or object.

  \<^item> The store: \<open>write_error\<close> is the error, if any, with which the store refuses the
    upsert of the given filter \<^verbatim>\<open>_id\<close> and fields into the named collection with the given
    documents; \<open>matching\<close> is the answer of the store to the query of lines 251 to 265 on
    the named collection, for the zoom tier, the point and the maximal distance the handler
    sends: an error, or the test that selects the documents found.

  \<^item> The geometry library: \<open>simplify\<close>, given the tolerance and a feature, returns the
    simplified feature or throws.
\<close>

record env =
  builtin_member :: "jsval \<Rightarrow> string \<Rightarrow> jsval option"
  rejects_write :: "jsval \<Rightarrow> string \<Rightarrow> bool"
  number_text :: "real \<Rightarrow> string"
  builtin_text :: "string \<Rightarrow> string"
  write_error :: "string \<Rightarrow> doc list \<Rightarrow> jsval \<Rightarrow> doc \<Rightarrow> js_error option"
  matching :: "db \<Rightarrow> string \<Rightarrow> jsnum \<Rightarrow> jsnum \<times> jsnum \<Rightarrow> jsnum \<Rightarrow> js_error + (doc \<Rightarrow> bool)"
  simplify :: "jsnum \<Rightarrow> jsval \<Rightarrow> js_error + jsval"

section \<open>Reading properties\<close>

text \<open>The members every object inherits from \<^verbatim>\<open>Object.prototype\<close>; the accessor
  \<^verbatim>\<open>__proto__\<close> reads the prototype itself.\<close>

definition object_prototype :: "string \<Rightarrow> jsval option" where
  "object_prototype k =
     (if k = ''__proto__'' then Some (JBuiltin ''Object.prototype'')
      else if k = ''constructor'' then Some (JFunction ''Object'')
      else if k \<in> set [''hasOwnProperty'', ''isPrototypeOf'', ''propertyIsEnumerable'',
                        ''toLocaleString'', ''toString'', ''valueOf'',
                        ''__defineGetter__'', ''__defineSetter__'',
                        ''__lookupGetter__'', ''__lookupSetter__'']
        then Some (JFunction k)
      else None)"

text \<open>The names the handlers read by name. No built-in prototype has a member of one of
  these names, so the engine is asked about other keys only.\<close>

definition read_names :: "string list" where
  "read_names = [''_id'', ''type'', ''features'', ''featureclass'', ''mapping'',
                 ''properties'', ''geometry'']"

text \<open>The own properties: the entries of an object, the indexed elements and the length
  of an array or a string.\<close>

fun own :: "jsval \<Rightarrow> string \<Rightarrow> jsval option" where
  "own (JObj kvs) k = map_of kvs k"
| "own (JArr xs) k =
     (if k = ''length'' then Some (JNum (Fin (real (length xs))))
      else case index_of_key k of
             None \<Rightarrow> None
           | Some i \<Rightarrow> if i < length xs then Some (xs ! i) else None)"
| "own (JStr s) k =
     (if k = ''length'' then Some (JNum (Fin (real (length s))))
      else case index_of_key k of
             None \<Rightarrow> None
           | Some i \<Rightarrow> if i < length s then Some (JStr [s ! i]) else None)"
| "own v k = None"

text \<open>What the prototype chain provides: for an object parsed from JSON the members of
  \<^verbatim>\<open>Object.prototype\<close>; for any other value what the engine says.\<close>

fun inherited :: "env \<Rightarrow> jsval \<Rightarrow> string \<Rightarrow> jsval option" where
  "inherited W (JObj kvs) k = object_prototype k"
| "inherited W v k = (if k \<in> set read_names then None else builtin_member W v k)"

text \<open>\<open>member W v k\<close> is \<^verbatim>\<open>v[k]\<close> for a value \<open>v\<close> that is neither \<^verbatim>\<open>null\<close> nor
  \<^verbatim>\<open>undefined\<close>.\<close>

definition member :: "env \<Rightarrow> jsval \<Rightarrow> string \<Rightarrow> jsval" where
  "member W v k =
     (case own v k of
        Some x \<Rightarrow> x
      | None \<Rightarrow> (case inherited W v k of Some x \<Rightarrow> x | None \<Rightarrow> JUndefined))"

text \<open>\<^verbatim>\<open>v.k\<close> throws on \<^verbatim>\<open>null\<close> and \<^verbatim>\<open>undefined\<close>.\<close>

definition get_prop :: "env \<Rightarrow> jsval \<Rightarrow> string \<Rightarrow> js_error + jsval" where
  "get_prop W v k = (if nullish v then Inl TypeError else Inr (member W v k))"

text \<open>The operator \<^verbatim>\<open>k in v\<close>, for a value that is an object.\<close>

definition has_property :: "env \<Rightarrow> jsval \<Rightarrow> string \<Rightarrow> bool" where
  "has_property W v k = (own v k \<noteq> None \<or> inherited W v k \<noteq> None)"

text \<open>\<^verbatim>\<open>Object.entries(v)\<close>: it throws on \<^verbatim>\<open>null\<close> and \<^verbatim>\<open>undefined\<close>, lists the
  indexed elements of an array or a string, and is empty for a number, a boolean and a
  built-in function or object.\<close>

fun object_entries :: "jsval \<Rightarrow> js_error + (string \<times> jsval) list" where
  "object_entries JUndefined = Inl TypeError"
| "object_entries JNull = Inl TypeError"
| "object_entries (JObj kvs) = Inr kvs"
| "object_entries (JArr xs) = Inr (zip (map show_nat [0..<length xs]) xs)"
| "object_entries (JStr s) = Inr (zip (map show_nat [0..<length s]) (map (\<lambda>c. JStr [c]) s))"
| "object_entries v = Inr []"

subsection \<open>Conversion to a string\<close>

text \<open>
  A template literal, a property key and the argument of \<^verbatim>\<open>RegExp.prototype.test\<close> are
  converted with \<^verbatim>\<open>ToString\<close>. An array joins the texts of its elements, \<^verbatim>\<open>null\<close>
  and \<^verbatim>\<open>undefined\<close> counting as empty. An object parsed from JSON prints as
  \<^verbatim>\<open>[object Object]\<close> through the inherited \<^verbatim>\<open>toString\<close>; when it has an own property
  named \<^verbatim>\<open>toString\<close>, that value is not callable, \<^verbatim>\<open>valueOf\<close> yields no primitive
  either, and the conversion throws a \<^verbatim>\<open>TypeError\<close>.
\<close>

fun join_comma :: "string list \<Rightarrow> string" where
  "join_comma [] = []"
| "join_comma [s] = s"
| "join_comma (s # t # ss) = s @ '','' @ join_comma (t # ss)"

fun num_to_string :: "env \<Rightarrow> jsnum \<Rightarrow> string" where
  "num_to_string W NaN = ''NaN''"
| "num_to_string W PosInf = ''Infinity''"
| "num_to_string W NegInf = ''-Infinity''"
| "num_to_string W NegZero = ''0''"
| "num_to_string W (Fin a) = number_text W a"

fun to_string :: "env \<Rightarrow> jsval \<Rightarrow> js_error + string"
  and to_strings :: "env \<Rightarrow> jsval list \<Rightarrow> js_error + string list" where
  "to_string W JUndefined = Inr ''undefined''"
| "to_string W JNull = Inr ''null''"
| "to_string W (JBool b) = Inr (if b then ''true'' else ''false'')"
| "to_string W (JNum n) = Inr (num_to_string W n)"
| "to_string W (JStr s) = Inr s"
| "to_string W (JArr xs) =
     (case to_strings W xs of Inl e \<Rightarrow> Inl e | Inr ts \<Rightarrow> Inr (join_comma ts))"
| "to_string W (JObj kvs) =
     (if ''toString'' \<in> set (map fst kvs) then Inl TypeError else Inr ''[object Object]'')"
| "to_string W (JFunction f) = Inr (builtin_text W f)"
| "to_string W (JBuiltin b) = Inr (builtin_text W b)"
| "to_strings W [] = Inr []"
| "to_strings W (x # xs) =
     (case (if nullish x then Inr [] else to_string W x) of
        Inl e \<Rightarrow> Inl e
      | Inr t \<Rightarrow> (case to_strings W xs of Inl e \<Rightarrow> Inl e | Inr ts \<Rightarrow> Inr (t # ts)))"

text \<open>\<^verbatim>\<open>/^[\w]+$/.test(s)\<close>: one or more characters, each a letter, a digit or the
  underscore.\<close>

definition word_char :: "char \<Rightarrow> bool" where
  "word_char c =
     (c \<in> set (''abcdefghijklmnopqrstuvwxyz'' @ ''ABCDEFGHIJKLMNOPQRSTUVWXYZ'' @ ''0123456789_''))"

definition word_test :: "string \<Rightarrow> bool" where
  "word_test s = (s \<noteq> [] \<and> list_all word_char s)"

section \<open>The document store\<close>

text \<open>
  The store is an external collaborator. Looking a rule up and ensuring an index are
  modelled as succeeding; a write and the proximity query succeed or fail as the
  environment says. A field name is taken as it is written (no dotted paths), and a value
  is stored as the handler built it.
\<close>

definition doc_id :: "doc \<Rightarrow> jsval" where
  "doc_id d = (case map_of d ''_id'' of None \<Rightarrow> JUndefined | Some v \<Rightarrow> v)"

text \<open>\<^verbatim>\<open>collection.findOne({ _id: id })\<close>\<close>

definition find_one :: "doc list \<Rightarrow> jsval \<Rightarrow> doc option" where
  "find_one docs idv = List.find (\<lambda>d. doc_id d = idv) docs"

text \<open>The update \<^verbatim>\<open>{ $set: upd }\<close> applied to a document: a field of \<open>upd\<close> replaces
  the field of that name or is added; the other fields stay.\<close>

definition set_fields :: "doc \<Rightarrow> doc \<Rightarrow> doc" where
  "set_fields upd d = fold (\<lambda>(k, v). AList.update k v) upd d"

fun update_first :: "jsval \<Rightarrow> doc \<Rightarrow> doc list \<Rightarrow> (doc list \<times> bool) option" where
  "update_first idv upd [] = None"
| "update_first idv upd (d # ds) =
     (if doc_id d = idv then Some (set_fields upd d # ds, set_fields upd d \<noteq> d)
      else map_option (\<lambda>(ds', changed). (d # ds', changed)) (update_first idv upd ds))"

text \<open>
  The effect of an accepted \<^verbatim>\<open>updateOne({ _id: id }, { $set: upd }, { upsert: true })\<close>:
  the first document with that \<^verbatim>\<open>_id\<close> gets the fields of \<open>upd\<close>; when there is none,
  a document made of the filter and of \<open>upd\<close> is inserted. The result is the new
  collection with \<^verbatim>\<open>upsertedCount\<close> and \<^verbatim>\<open>modifiedCount\<close>.
\<close>

definition update_one :: "jsval \<Rightarrow> doc \<Rightarrow> doc list \<Rightarrow> doc list \<times> nat \<times> nat" where
  "update_one idv upd docs =
     (case update_first idv upd docs of
        Some (docs', changed) \<Rightarrow> (docs', 0, if changed then 1 else 0)
      | None \<Rightarrow> (docs @ [set_fields upd [(''_id'', idv)]], 1, 0))"

text \<open>\<^verbatim>\<open>collection.updateOne(...)\<close> of line 126: refused by the store, or applied.\<close>

definition updateOne ::
  "env \<Rightarrow> string \<Rightarrow> jsval \<Rightarrow> doc \<Rightarrow> doc list \<Rightarrow> js_error + doc list \<times> nat \<times> nat" where
  "updateOne W name idv upd docs =
     (case write_error W name docs idv upd of
        Some e \<Rightarrow> Inl e
      | None \<Rightarrow> Inr (update_one idv upd docs))"

text \<open>
  \<^verbatim>\<open>collection.bulkWrite(ops, { ordered: false })\<close> for a batch of such upserts, taken
  here in the order of the batch. An operation the store refuses is skipped and the others
  are still applied; the call then throws (the first error stands for what it throws).
\<close>

fun bulkWrite ::
  "env \<Rightarrow> string \<Rightarrow> (jsval \<times> doc) list \<Rightarrow> doc list \<Rightarrow> js_error option \<times> doc list \<times> nat \<times> nat" where
  "bulkWrite W name [] docs = (None, docs, 0, 0)"
| "bulkWrite W name ((idv, upd) # ops) docs =
     (case write_error W name docs idv upd of
        Some e \<Rightarrow>
          (case bulkWrite W name ops docs of
             (err, docs2, u2, m2) \<Rightarrow> (Some e, docs2, u2, m2))
      | None \<Rightarrow>
          (case update_one idv upd docs of
             (docs1, u1, m1) \<Rightarrow>
               (case bulkWrite W name ops docs1 of
                  (err, docs2, u2, m2) \<Rightarrow> (err, docs2, u1 + u2, m1 + m2))))"

text \<open>Lines 24 to 27.\<close>

definition ensureGeospatialIndexForCollection :: "db \<Rightarrow> string \<Rightarrow> db" where
  "ensureGeospatialIndexForCollection st collectionName =
     st\<lparr>indexed := insert collectionName (indexed st)\<rparr>"

section \<open>Creating a rule\<close>

text \<open>
  The handler of \<^verbatim>\<open>POST /map/rule/:rule\<close> (lines 112 to 137). The two write
  endpoints exist only when the credentials are configured (line 79); the model is of a
  request that has passed the credential check. The handler returns what it throws or the
  JSON it answers, and the database it leaves.
\<close>

definition post_rule :: "env \<Rightarrow> db \<Rightarrow> string \<Rightarrow> jsval \<Rightarrow> (js_error + jsval) \<times> db" where
  "post_rule W st ruleId body =
     (if nullish body then (Inl TypeError, st)
      else
        let featureclass = member W body ''featureclass'';
            mapping = member W body ''mapping''
        in
          if \<not> truthy featureclass then
            (Inl (JsError ''featureclass is required'' None), st)
          else
            (case to_string W featureclass of
               Inl e \<Rightarrow> (Inl e, st)
             | Inr s \<Rightarrow>
                 if \<not> word_test s then
                   (Inl (JsError ''featureclass must be alphanumerical'' None), st)
                 else if \<not> truthy mapping \<or> \<not> typeof_object mapping then
                   (Inl (JsError ''mapping must be an object'' None), st)
                 else if \<not> has_property W mapping ''_id'' then
                   (Inl (JsError ''mapping must contain _id'' None), st)
                 else
                   (case updateOne W ''geo_upload_rule'' (JStr ruleId)
                           [(''featureclass'', featureclass), (''mapping'', mapping)]
                           (colls st ''geo_upload_rule'') of
                      Inl e \<Rightarrow> (Inl e, st)
                    | Inr (docs', upsertedCount, modifiedCount) \<Rightarrow>
                        (Inr (JObj [(''success'', JBool True),
                                    (''inserted'', JNum (Fin (real upsertedCount))),
                                    (''modified'', JNum (Fin (real modifiedCount)))]),
                         st\<lparr>colls := (colls st)(''geo_upload_rule'' := docs')\<rparr>))))"

section \<open>Uploading a feature collection\<close>

text \<open>
  \<^verbatim>\<open>feature.properties?.[sourceField]\<close> of line 168: \<^verbatim>\<open>undefined\<close> when the properties
  are \<^verbatim>\<open>null\<close> or \<^verbatim>\<open>undefined\<close> (the key is then not converted); otherwise the key is
  converted to a string, which can throw, and the property is read through the prototype
  chain.
\<close>

definition resolve :: "env \<Rightarrow> jsval \<Rightarrow> jsval \<Rightarrow> js_error + jsval" where
  "resolve W properties sourceField =
     (if nullish properties then Inr JUndefined
      else
        (case to_string W sourceField of
           Inl e \<Rightarrow> Inl e
         | Inr k \<Rightarrow> Inr (member W properties k)))"

text \<open>
  \<^verbatim>\<open>mappedDoc\<close> is the pair of its own properties and its prototype; line 166 creates
  it empty, with the prototype \<^verbatim>\<open>Object.prototype\<close>.
\<close>

definition new_object :: "doc \<times> jsval" where
  "new_object = ([], JBuiltin ''Object.prototype'')"

text \<open>
  An assignment to a key that is no own property of the object looks the key up on the
  prototype chain. The key \<^verbatim>\<open>__proto__\<close> finds the accessor of \<^verbatim>\<open>Object.prototype\<close>,
  unless the chain ends before (a \<^verbatim>\<open>null\<close> prototype) or an object parsed from JSON
  with an own property of that name comes first.
\<close>

fun reaches_setter :: "jsval \<Rightarrow> bool" where
  "reaches_setter JNull = False"
| "reaches_setter (JObj kvs) = (''__proto__'' \<notin> set (map fst kvs))"
| "reaches_setter p = True"

text \<open>Whether the chain makes the assignment throw (the module is strict code). An
  object parsed from JSON and \<^verbatim>\<open>Object.prototype\<close> hold writable properties only.\<close>

fun rejected :: "env \<Rightarrow> jsval \<Rightarrow> string \<Rightarrow> bool" where
  "rejected W JNull k = False"
| "rejected W (JObj kvs) k = False"
| "rejected W p k =
     (p \<noteq> JBuiltin ''Object.prototype'' \<and> k \<notin> set read_names \<and> rejects_write W p k)"

text \<open>
  \<^verbatim>\<open>mappedDoc[k] = v\<close>. An own property is overwritten. Otherwise the accessor
  \<^verbatim>\<open>__proto__\<close>, when the assignment reaches it, makes \<open>v\<close> the prototype if \<open>v\<close> is an
  object or \<^verbatim>\<open>null\<close> and does nothing for any other \<open>v\<close>: no own property is created.
  In every other case the assignment throws or adds the own property.
\<close>

definition assign :: "env \<Rightarrow> doc \<times> jsval \<Rightarrow> string \<Rightarrow> jsval \<Rightarrow> js_error + doc \<times> jsval" where
  "assign W obj k v =
     (case obj of
        (props, proto) \<Rightarrow>
          if k \<in> set (map fst props) then Inr (AList.update k v props, proto)
          else if k = ''__proto__'' \<and> reaches_setter proto then
            Inr (props, if is_object v \<or> v = JNull then v else proto)
          else if rejected W proto k then Inl TypeError
          else Inr (AList.update k v props, proto))"

text \<open>\<^verbatim>\<open>mappedDoc._id\<close> of line 180: the own property, or what the prototype gives.\<close>

definition mapped_id :: "env \<Rightarrow> doc \<times> jsval \<Rightarrow> jsval" where
  "mapped_id W obj =
     (case obj of
        (props, proto) \<Rightarrow>
          (case map_of props ''_id'' of
             Some v \<Rightarrow> v
           | None \<Rightarrow> if proto = JNull then JUndefined else member W proto ''_id''))"

text \<open>The loop of lines 167 to 175 over \<^verbatim>\<open>Object.entries(mapping)\<close>.\<close>

fun map_fields ::
  "env \<Rightarrow> jsval \<Rightarrow> (string \<times> jsval) list \<Rightarrow> doc \<times> jsval \<Rightarrow> js_error + doc \<times> jsval" where
  "map_fields W properties [] mappedDoc = Inr mappedDoc"
| "map_fields W properties ((targetField, sourceField) # entries) mappedDoc =
     (case resolve W properties sourceField of
        Inl e \<Rightarrow> Inl e
      | Inr val \<Rightarrow>
          if targetField = ''_id'' then
            (if \<not> truthy val then Inl (JsError ''Feature missing _id value from mapping'' None)
             else
               (case assign W mappedDoc ''_id'' val of
                  Inl e \<Rightarrow> Inl e
                | Inr mappedDoc' \<Rightarrow> map_fields W properties entries mappedDoc'))
          else
            (case assign W mappedDoc targetField val of
               Inl e \<Rightarrow> Inl e
             | Inr mappedDoc' \<Rightarrow> map_fields W properties entries mappedDoc'))"

text \<open>
  Lines 162 to 184: one feature to its operation, the pair of the filter's \<^verbatim>\<open>_id\<close> and
  of the own properties of \<^verbatim>\<open>mappedDoc\<close>, which are the fields to set.
\<close>

definition map_feature :: "env \<Rightarrow> jsval \<Rightarrow> jsval \<Rightarrow> js_error + jsval \<times> doc" where
  "map_feature W mapping feature =
     (case get_prop W feature ''type'' of
        Inl e \<Rightarrow> Inl e
      | Inr t \<Rightarrow>
          if t \<noteq> JStr ''Feature'' then Inl (JsError ''All items must be GeoJSON Features'' None)
          else
            (case object_entries mapping of
               Inl e \<Rightarrow> Inl e
             | Inr entries \<Rightarrow>
                 (case map_fields W (member W feature ''properties'') entries new_object of
                    Inl e \<Rightarrow> Inl e
                  | Inr mappedDoc \<Rightarrow>
                      (case assign W mappedDoc ''geometry'' (member W feature ''geometry'') of
                         Inl e \<Rightarrow> Inl e
                       | Inr mappedDoc' \<Rightarrow> Inr (mapped_id W mappedDoc', fst mappedDoc')))))"

text \<open>\<^verbatim>\<open>features.map(...)\<close> of line 161: the first feature that throws ends the map.\<close>

fun map_features :: "env \<Rightarrow> jsval \<Rightarrow> jsval list \<Rightarrow> js_error + (jsval \<times> doc) list" where
  "map_features W mapping [] = Inr []"
| "map_features W mapping (feature # features) =
     (case map_feature W mapping feature of
        Inl e \<Rightarrow> Inl e
      | Inr op \<Rightarrow>
          (case map_features W mapping features of
             Inl e \<Rightarrow> Inl e
           | Inr ops \<Rightarrow> Inr (op # ops)))"

text \<open>The handler of \<^verbatim>\<open>POST /map/upload/:rule\<close> (lines 140 to 199), after the
  credential check.\<close>

definition post_upload :: "env \<Rightarrow> db \<Rightarrow> string \<Rightarrow> jsval \<Rightarrow> (js_error + jsval) \<times> db" where
  "post_upload W st ruleId body =
     (if nullish body then (Inl TypeError, st)
      else
        let type = member W body ''type'';
            features = member W body ''features''
        in
          if type \<noteq> JStr ''FeatureCollection'' \<or> \<not> is_array features then
            (Inl (JsError ''Body must be a valid GeoJSON FeatureCollection'' None), st)
          else
            (case find_one (colls st ''geo_upload_rule'') (JStr ruleId) of
               None \<Rightarrow>
                 (Inl (JsError (''Upload rule '' @ [CHR 0x27] @ ruleId @ [CHR 0x27] @ '' not found'')
                         (Some 404)), st)
             | Some rule \<Rightarrow>
                 (case to_string W (member W (JObj rule) ''featureclass'') of
                    Inl e \<Rightarrow> (Inl e, st)
                  | Inr s \<Rightarrow>
                      let targetCollection = ''geo_'' @ s;
                          mapping = member W (JObj rule) ''mapping'';
                          st1 = ensureGeospatialIndexForCollection st targetCollection
                      in
                        (case map_features W mapping (elements features) of
                           Inl e \<Rightarrow> (Inl e, st1)
                         | Inr ops \<Rightarrow>
                             if ops = [] then
                               (Inl (JsError ''No valid features to insert'' None), st1)
                             else
                               (case bulkWrite W targetCollection ops (colls st1 targetCollection) of
                                  (Some e, docs', upsertedCount, modifiedCount) \<Rightarrow>
                                    (Inl e, st1\<lparr>colls := (colls st1)(targetCollection := docs')\<rparr>)
                                | (None, docs', upsertedCount, modifiedCount) \<Rightarrow>
                                    (Inr (JObj [(''success'', JBool True),
                                                (''collection'', JStr targetCollection),
                                                (''inserted'', JNum (Fin (real upsertedCount))),
                                                (''modified'', JNum (Fin (real modifiedCount)))]),
                                     st1\<lparr>colls := (colls st1)(targetCollection := docs')\<rparr>))))))"

section \<open>The proximity query\<close>

text \<open>
  \<^verbatim>\<open>collection.find({...}).toArray()\<close> of lines 250 to 266. Which documents satisfy
  the filter (the zoom condition and \<^verbatim>\<open>$near\<close>) is decided by the store, which can also
  refuse the query. The order in which the store returns the documents (nearest first) is
  not modelled: they are listed in the order of the collection.
\<close>

definition find_near ::
  "env \<Rightarrow> db \<Rightarrow> string \<Rightarrow> jsnum \<Rightarrow> jsnum \<times> jsnum \<Rightarrow> jsnum \<Rightarrow> js_error + doc list" where
  "find_near W st name z coordinates maxDistance =
     (case matching W st name z coordinates maxDistance of
        Inl e \<Rightarrow> Inl e
      | Inr matches \<Rightarrow> Inr (filter matches (colls st name)))"

text \<open>\<^verbatim>\<open>docs.map(...)\<close> of lines 272 to 284: the first document whose simplification
  throws ends the map.\<close>

fun simplify_all :: "env \<Rightarrow> jsnum \<Rightarrow> doc list \<Rightarrow> js_error + jsval list" where
  "simplify_all W tol [] = Inr []"
| "simplify_all W tol (d # docs) =
     (case simplify W tol (JObj [(''type'', JStr ''Feature''),
                                 (''geometry'', member W (JObj d) ''geometry'')]) of
        Inl e \<Rightarrow> Inl e
      | Inr simplifiedFeature \<Rightarrow>
          (case simplify_all W tol docs of
             Inl e \<Rightarrow> Inl e
           | Inr features \<Rightarrow> Inr (simplifiedFeature # features)))"

text \<open>The handler of \<^verbatim>\<open>GET /map/features/:featureclass\<close> (lines 202 to 290), from the
  parsed query parameters.\<close>

definition get_features ::
  "env \<Rightarrow> db \<Rightarrow> string \<Rightarrow> jsnum \<Rightarrow> jsnum \<Rightarrow> jsnum \<Rightarrow> js_error + jsval" where
  "get_features W st featureclass lng0 lat0 parsed_radius =
     (let radius = radius_of parsed_radius in
        if isNaN lng0 \<or> isNaN lat0 then Inl (JsError ''Invalid coordinates'' (Some 400))
        else
          (case find_near W st (''geo_'' @ featureclass) (zoom radius)
                  (normalized lng0 lat0) (radiusM radius) of
             Inl e \<Rightarrow> Inl e
           | Inr docs \<Rightarrow>
               (case simplify_all W (tolerance radius) docs of
                  Inl e \<Rightarrow> Inl e
                | Inr features \<Rightarrow>
                    Inr (JObj [(''type'', JStr ''FeatureCollection''),
                               (''features'', JArr (filter truthy features))]))))"

section \<open>Answering\<close>

text \<open>
  The error-handling middleware of lines 293 to 298 answers every error a handler throws
  (the errors thrown inside the asynchronous handlers are taken to be passed on to it):
  \<^verbatim>\<open>res.status(err.status || 500).json({ error: err.message || "Internal Server Error" })\<close>.
  A handler that returns answers with status 200.
\<close>

datatype response = Response (code: nat) (json: jsval)

definition error_handler :: "js_error \<Rightarrow> response" where
  "error_handler err =
     Response
       (case status err of None \<Rightarrow> 500 | Some s \<Rightarrow> if s = 0 then 500 else s)
       (JObj [(''error'', JStr (if message err = [] then ''Internal Server Error'' else message err))])"

definition respond :: "js_error + jsval \<Rightarrow> response" where
  "respond r = (case r of Inl err \<Rightarrow> error_handler err | Inr body \<Rightarrow> Response 200 body)"

section \<open>Example data\<close>

text \<open>An environment whose store accepts every write and finds every document and whose
  simplification returns the feature as it is (its engine part is not consulted by the
  examples, which read objects parsed from JSON only); a rule, features, batches and
  databases. They instantiate the theorems below.\<close>

definition plain_env :: env where
  "plain_env =
     \<lparr>builtin_member = (\<lambda>v k. None),
      rejects_write = (\<lambda>p k. False),
      number_text = (\<lambda>r. []),
      builtin_text = (\<lambda>b. []),
      write_error = (\<lambda>name docs idv upd. None),
      matching = (\<lambda>st name z coordinates maxDistance. Inr (\<lambda>d. True)),
      simplify = (\<lambda>tol feature. Inr feature)\<rparr>"

definition poi_rule :: doc where
  "poi_rule =
     [(''_id'', JStr ''r1''),
      (''featureclass'', JStr ''poi''),
      (''mapping'', JObj [(''_id'', JStr ''code''), (''name'', JStr ''label'')])]"

definition point :: jsval where
  "point = JObj [(''type'', JStr ''Point''), (''coordinates'', JArr [JNum (Fin 1), JNum (Fin 2)])]"

definition cafe :: jsval where
  "cafe =
     JObj [(''type'', JStr ''Feature''),
           (''properties'', JObj [(''code'', JStr ''A1''), (''label'', JStr ''Cafe'')]),
           (''geometry'', point)]"

definition nameless :: jsval where
  "nameless =
     JObj [(''type'', JStr ''Feature''),
           (''properties'', JObj [(''label'', JStr ''Bar'')]),
           (''geometry'', point)]"

definition mixed_batch :: jsval where
  "mixed_batch = JObj [(''type'', JStr ''FeatureCollection''), (''features'', JArr [cafe, nameless])]"

definition poi_db :: db where
  "poi_db =
     \<lparr>colls = (\<lambda>c. [])(''geo_upload_rule'' := [poi_rule],
                        ''geo_poi'' := [[(''_id'', JStr ''Z9''), (''geometry'', point)]]),
      indexed = {''geo_poi''}\<rparr>"

text \<open>
  Three requests on an empty database: a rule \<^verbatim>\<open>ra\<close> whose featureclass is
  \<^verbatim>\<open>upload_rule\<close>, so that its uploads go to the collection of the rules; an upload
  under that rule of one feature, which becomes the record \<^verbatim>\<open>x\<close> there; and the rule
  \<^verbatim>\<open>x\<close> posted again.
\<close>

definition empty_db :: db where
  "empty_db = \<lparr>colls = (\<lambda>c. []), indexed = {}\<rparr>"

definition rule_a_body :: jsval where
  "rule_a_body =
     JObj [(''featureclass'', JStr ''upload_rule''),
           (''mapping'', JObj [(''_id'', JStr ''code''), (''featureclass'', JStr ''fc''),
                               (''mapping'', JStr ''mp''), (''note'', JStr ''memo'')])]"

definition rule_feature :: jsval where
  "rule_feature =
     JObj [(''type'', JStr ''Feature''),
           (''properties'', JObj [(''code'', JStr ''x''), (''fc'', JStr ''poi''),
                                  (''mp'', JObj [(''_id'', JStr ''gid'')]),
                                  (''memo'', JStr ''keep'')]),
           (''geometry'', point)]"

definition rule_batch :: jsval where
  "rule_batch = JObj [(''type'', JStr ''FeatureCollection''), (''features'', JArr [rule_feature])]"

definition rule_x_body :: jsval where
  "rule_x_body =
     JObj [(''featureclass'', JStr ''roads''), (''mapping'', JObj [(''_id'', JStr ''rid'')])]"

definition one_request :: db where
  "one_request = snd (post_rule plain_env empty_db ''ra'' rule_a_body)"

definition two_requests :: db where
  "two_requests = snd (post_upload plain_env one_request ''ra'' rule_batch)"

definition three_requests :: db where
  "three_requests = snd (post_rule plain_env two_requests ''x'' rule_x_body)"

section \<open>Auxiliary facts\<close>

subsection \<open>Logarithms and the zoom tier\<close>

lemma log2_quarter: "log 2 (1 / 4) = - 2"
proof -
  have "log 2 4 = log 2 (2 ^ 2)" by simp
  also have "\<dots> = real 2" by (rule log_pow_cancel) simp_all
  finally have four: "log 2 4 = 2" by simp
  have "log 2 (1 / 4) = log 2 1 - log 2 4" by (rule log_divide_pos) simp_all
  then show ?thesis by (simp only: four log_one)
qed

lemma log2_eighth: "log 2 (1 / 8) = - 3"
proof -
  have "log 2 8 = log 2 (2 ^ 3)" by simp
  also have "\<dots> = real 3" by (rule log_pow_cancel) simp_all
  finally have eight: "log 2 8 = 3" by simp
  have "log 2 (1 / 8) = log 2 1 - log 2 8" by (rule log_divide_pos) simp_all
  then show ?thesis by (simp only: eight log_one)
qed

lemma max_one_int: "Math_max (Fin 1) (Fin (of_int n)) = Fin (of_int (max 1 n))"
  by (simp add: Math_max_def js_le_def max_def)

lemma zoom_formula:
  assumes "0 < r"
  shows "zoom (Fin r) = Fin (of_int (max 1 \<lfloor>- log 2 (r / pi)\<rfloor>))"
proof -
  have q: "js_divide (Fin r) Math_PI = Fin (r / pi)"
    using assms by (simp add: js_divide_def Math_PI_def)
  have l: "Math_log2 (Fin (r / pi)) = Fin (log 2 (r / pi))"
    using assms by (simp add: divide_less_0_iff)
  have z: "zoom (Fin r) = Math_max (Fin 1) (Math_floor (js_neg (Fin (log 2 (r / pi)))))"
    unfolding zoom_def q l by (rule refl)
  show ?thesis
  proof (cases "log 2 (r / pi) = 0")
    case True
    then show ?thesis unfolding z by (simp add: Math_max_def js_le_def)
  next
    case False
    then have "zoom (Fin r) = Math_max (Fin 1) (Fin (of_int \<lfloor>- log 2 (r / pi)\<rfloor>))"
      unfolding z by simp
    then show ?thesis by (simp only: max_one_int)
  qed
qed

lemma zoom_antimono:
  assumes "0 < r1" and "r1 \<le> r2"
  shows "js_le (zoom (Fin r2)) (zoom (Fin r1))"
proof -
  have "r1 / pi \<le> r2 / pi" using assms by (simp add: divide_right_mono)
  moreover have "0 < r1 / pi" using assms by simp
  ultimately have "log 2 (r1 / pi) \<le> log 2 (r2 / pi)" by simp
  then have "\<lfloor>- log 2 (r2 / pi)\<rfloor> \<le> \<lfloor>- log 2 (r1 / pi)\<rfloor>" by (simp add: floor_mono)
  then show ?thesis using assms by (simp add: zoom_formula js_le_def)
qed

subsection \<open>The radius\<close>

lemma radius_of_NaN: "radius_of NaN = Fin (pi / 2)"
  by (simp add: radius_of_def num_truthy_def Math_PI_def js_divide_def)

lemma radiusM_Fin: "radiusM (Fin r) = Fin (20000000 / pi * r)"
  by (simp add: radiusM_def Math_PI_def js_divide_def js_times_def signed_zero_def)

lemma tolerance_Fin: "tolerance (Fin r) = Fin (0.18 * r)"
  by (simp add: tolerance_def js_times_def signed_zero_def)

subsection \<open>The normalisation at longitude 0, latitude 100\<close>

lemma cos_100: "cos (5 * pi / 9) < 0"
proof -
  have "cos (5 * pi / 9) = cos (pi - 4 * pi / 9)" by (simp add: field_simps)
  also have "\<dots> = - cos (4 * pi / 9)" by (rule cos_pi_minus)
  finally have e: "cos (5 * pi / 9) = - cos (4 * pi / 9)" .
  have "0 < cos (4 * pi / 9)" by (rule cos_gt_zero_pi) (simp_all add: field_simps)
  then show ?thesis using e by simp
qed

lemma asin_100: "arcsin (sin (5 * pi / 9)) = 4 * pi / 9"
proof -
  have "sin (5 * pi / 9) = sin (pi - 4 * pi / 9)" by (simp add: field_simps)
  also have "\<dots> = sin (4 * pi / 9)" by (rule sin_pi_minus)
  finally have e: "sin (5 * pi / 9) = sin (4 * pi / 9)" .
  have "arcsin (sin (4 * pi / 9)) = 4 * pi / 9" by (rule arcsin_sin) (simp_all add: field_simps)
  then show ?thesis using e by simp
qed

text \<open>
  With \<open>\<phi>\<close> the angle of 100 degrees and \<open>\<lambda> = 0\<close>: \<open>cos \<phi>\<close> is negative and \<open>sin \<lambda>\<close> is the positive
  zero, so \<open>y\<close> is the negative zero and \<open>x\<close> is negative; \<^verbatim>\<open>Math.atan2(-0, x)\<close> is then
  \<open>-\<pi>\<close>, and the longitude is \<open>-180\<close>.
\<close>

lemma normalized_0_100: "normalized (Fin 0) (Fin 100) = (Fin (- 180), Fin 80)"
proof -
  have phi: "js_times (js_divide Math_PI (Fin 180)) (Fin 100) = Fin (5 * pi / 9)"
    by (simp add: js_times_def js_divide_def Math_PI_def)
  have lambda: "js_times (js_divide Math_PI (Fin 180)) (Fin 0) = Fin 0"
    by (simp add: js_times_def js_divide_def Math_PI_def signed_zero_def)
  have k: "js_divide (Fin 180) Math_PI = Fin (180 / pi)"
    by (simp add: js_divide_def Math_PI_def)
  have x: "js_times (Math_cos (Fin (5 * pi / 9))) (Math_cos (Fin 0)) = Fin (cos (5 * pi / 9))"
    using cos_100 by (simp add: js_times_def)
  have y: "js_times (Math_cos (Fin (5 * pi / 9))) (Math_sin (Fin 0)) = NegZero"
    using cos_100 by (simp add: js_times_def signed_zero_def)
  have a: "Math_atan2 NegZero (Fin (cos (5 * pi / 9))) = Fin (- pi)"
    using cos_100 by (simp add: Math_atan2_def)
  have lng: "js_times (Fin (- pi)) (Fin (180 / pi)) = Fin (- 180)"
    by (simp add: js_times_def)
  have z: "Math_asin (Math_sin (Fin (5 * pi / 9))) = Fin (4 * pi / 9)"
    using sin_ge_minus_one [of "5 * pi / 9"] sin_le_one [of "5 * pi / 9"]
    by (simp add: asin_100 not_less del: sin_le_one sin_ge_minus_one)
  have lat: "js_times (Fin (4 * pi / 9)) (Fin (180 / pi)) = Fin 80"
    by (simp add: js_times_def)
  show ?thesis
    by (simp only: normalized_def Let_def phi lambda k x y a lng z lat)
qed

subsection \<open>The query\<close>


lemma get_features_ok:
  assumes "\<not> isNaN lng0" and "\<not> isNaN lat0"
  shows "get_features W st featureclass lng0 lat0 parsed =
     (case find_near W st (''geo_'' @ featureclass) (zoom (radius_of parsed))
             (normalized lng0 lat0) (radiusM (radius_of parsed)) of
        Inl e \<Rightarrow> Inl e
      | Inr docs \<Rightarrow>
          (case simplify_all W (tolerance (radius_of parsed)) docs of
             Inl e \<Rightarrow> Inl e
           | Inr features \<Rightarrow>
               Inr (JObj [(''type'', JStr ''FeatureCollection''),
                          (''features'', JArr (filter truthy features))])))"
  using assms by (simp add: get_features_def Let_def)

subsection \<open>The store\<close>

lemma update_first_None: "update_first idv upd docs = None \<longleftrightarrow> find_one docs idv = None"
  by (induction docs) (auto simp: find_one_def)

lemma update_first_split:
  "find_one docs idv = Some d \<Longrightarrow>
     \<exists>pre post. docs = pre @ d # post \<and> (\<forall>x \<in> set pre. doc_id x \<noteq> idv) \<and>
       update_first idv upd docs = Some (pre @ set_fields upd d # post, set_fields upd d \<noteq> d)"
proof (induction docs)
  case Nil
  then show ?case by (simp add: find_one_def)
next
  case (Cons a docs)
  show ?case
  proof (cases "doc_id a = idv")
    case True
    then have "a = d" using Cons.prems by (simp add: find_one_def)
    then have "a # docs = [] @ d # docs \<and> (\<forall>x \<in> set []. doc_id x \<noteq> idv) \<and>
       update_first idv upd (a # docs) = Some ([] @ set_fields upd d # docs, set_fields upd d \<noteq> d)"
      using True by simp
    then show ?thesis by blast
  next
    case False
    then have "find_one docs idv = Some d" using Cons.prems by (simp add: find_one_def)
    from Cons.IH [OF this] obtain pre post where
      p: "docs = pre @ d # post" "\<forall>x \<in> set pre. doc_id x \<noteq> idv"
      "update_first idv upd docs = Some (pre @ set_fields upd d # post, set_fields upd d \<noteq> d)"
      by blast
    have "a # docs = (a # pre) @ d # post \<and> (\<forall>x \<in> set (a # pre). doc_id x \<noteq> idv) \<and>
       update_first idv upd (a # docs) = Some ((a # pre) @ set_fields upd d # post, set_fields upd d \<noteq> d)"
      using p False by simp
    then show ?thesis by blast
  qed
qed

subsection \<open>The upload\<close>

lemma map_fields_missing_id:
  "(''_id'', src) \<in> set entries \<Longrightarrow> resolve W props src = Inr v \<Longrightarrow> \<not> truthy v \<Longrightarrow>
     \<exists>e. map_fields W props entries acc = Inl e"
  by (induction entries arbitrary: acc) (auto split: sum.splits)

lemma map_features_invalid:
  "f \<in> set fs \<Longrightarrow> map_feature W mapping f = Inl e \<Longrightarrow> \<exists>e'. map_features W mapping fs = Inl e'"
  by (induction fs) (auto split: sum.splits)

lemma map_feature_invalid:
  assumes "get_prop W f ''type'' \<noteq> Inr (JStr ''Feature'') \<or>
     (\<exists>entries src v. object_entries mapping = Inr entries \<and> (''_id'', src) \<in> set entries \<and>
        resolve W (member W f ''properties'') src = Inr v \<and> \<not> truthy v)"
  shows "\<exists>e. map_feature W mapping f = Inl e"
proof (cases "get_prop W f ''type'' = Inr (JStr ''Feature'')")
  case False
  then show ?thesis by (auto simp: map_feature_def split: sum.splits)
next
  case True
  with assms obtain entries src v where
    "object_entries mapping = Inr entries" "(''_id'', src) \<in> set entries"
    "resolve W (member W f ''properties'') src = Inr v" "\<not> truthy v" by blast
  then show ?thesis
    using True map_fields_missing_id [of src entries W "member W f ''properties''" v new_object]
    by (auto simp: map_feature_def split: sum.splits)
qed

lemma post_upload_aborts:
  assumes "find_one (colls st ''geo_upload_rule'') (JStr ruleId) = Some rule"
    and "map_features W (member W (JObj rule) ''mapping'') (elements (member W body ''features'')) = Inl e"
  shows "(\<exists>e'. fst (post_upload W st ruleId body) = Inl e')
         \<and> colls (snd (post_upload W st ruleId body)) = colls st"
proof (cases "nullish body \<or> member W body ''type'' \<noteq> JStr ''FeatureCollection''
                \<or> \<not> is_array (member W body ''features'')")
  case True
  then show ?thesis by (auto simp: post_upload_def Let_def)
next
  case wf: False
  show ?thesis
  proof (cases "to_string W (member W (JObj rule) ''featureclass'')")
    case (Inl e')
    then show ?thesis using wf assms(1) by (simp add: post_upload_def Let_def)
  next
    case (Inr s)
    then have "post_upload W st ruleId body =
        (Inl e, ensureGeospatialIndexForCollection st (''geo_'' @ s))"
      using wf assms by (simp add: post_upload_def Let_def)
    then show ?thesis by (simp add: ensureGeospatialIndexForCollection_def)
  qed
qed

subsection \<open>The rule\<close>

lemma index_of_key_id: "index_of_key ''_id'' = None"
  by (simp add: index_of_key_def)

lemma object_prototype_id: "object_prototype ''_id'' = None"
  by (simp add: object_prototype_def)

lemma mapping_checks:
  "(truthy mp \<and> typeof_object mp \<and> has_property W mp ''_id'')
     \<longleftrightarrow> (\<exists>m. mp = JObj m \<and> ''_id'' \<in> fst ` set m)"
  by (cases mp)
    (auto simp: has_property_def index_of_key_id object_prototype_id read_names_def
        map_of_eq_None_iff)

lemma post_rule_invalid:
  assumes "\<not> truthy (member W body ''featureclass'')
           \<or> (\<forall>s. to_string W (member W body ''featureclass'') = Inr s \<longrightarrow> \<not> word_test s)
           \<or> \<not> (\<exists>m. member W body ''mapping'' = JObj m \<and> ''_id'' \<in> fst ` set m)"
  shows "\<exists>e. post_rule W st ruleId body = (Inl e, st)"
proof -
  have "\<not> truthy (member W body ''featureclass'')
      \<or> (\<forall>s. to_string W (member W body ''featureclass'') = Inr s \<longrightarrow> \<not> word_test s)
      \<or> \<not> (truthy (member W body ''mapping'') \<and> typeof_object (member W body ''mapping'')
            \<and> has_property W (member W body ''mapping'') ''_id'')"
    using assms unfolding mapping_checks by auto
  then show ?thesis
    by (auto simp: post_rule_def Let_def split: sum.splits)
qed

lemma post_rule_valid:
  assumes "truthy (member W body ''featureclass'')"
    and "to_string W (member W body ''featureclass'') = Inr s" and "word_test s"
    and "member W body ''mapping'' = JObj m" and "''_id'' \<in> fst ` set m"
    and "write_error W ''geo_upload_rule'' (colls st ''geo_upload_rule'') (JStr ruleId)
           [(''featureclass'', member W body ''featureclass''), (''mapping'', JObj m)] = None"
  shows "post_rule W st ruleId body =
    (case update_one (JStr ruleId)
            [(''featureclass'', member W body ''featureclass''), (''mapping'', JObj m)]
            (colls st ''geo_upload_rule'') of
       (docs', upsertedCount, modifiedCount) \<Rightarrow>
                 (Inr (JObj [(''success'', JBool True),
                             (''inserted'', JNum (Fin (real upsertedCount))),
                             (''modified'', JNum (Fin (real modifiedCount)))]),
                  st\<lparr>colls := (colls st)(''geo_upload_rule'' := docs')\<rparr>))"
proof -
  have nn: "\<not> nullish body"
    using assms(4) by (auto simp: nullish_def member_def read_names_def)
  have hp: "has_property W (JObj m) ''_id''"
    using assms(5) mapping_checks [of "JObj m" W] by simp
  show ?thesis using assms nn hp
    by (simp add: post_rule_def Let_def updateOne_def split: prod.splits)
qed

lemma put_rule_upsert:
  assumes "truthy (member W body ''featureclass'')"
    and "to_string W (member W body ''featureclass'') = Inr s" and "word_test s"
    and "member W body ''mapping'' = JObj m" and "''_id'' \<in> fst ` set m"
    and "write_error W ''geo_upload_rule'' (colls st ''geo_upload_rule'') (JStr ruleId)
           [(''featureclass'', member W body ''featureclass''), (''mapping'', JObj m)] = None"
  shows "\<exists>resp st'. post_rule W st ruleId body = (Inr resp, st') \<and> indexed st' = indexed st
           \<and> (\<forall>c. c \<noteq> ''geo_upload_rule'' \<longrightarrow> colls st' c = colls st c)
           \<and> (case find_one (colls st ''geo_upload_rule'') (JStr ruleId) of
                 None \<Rightarrow> colls st' ''geo_upload_rule'' = colls st ''geo_upload_rule'' @
                    [[(''_id'', JStr ruleId), (''featureclass'', member W body ''featureclass''),
                      (''mapping'', JObj m)]]
               | Some d \<Rightarrow> \<exists>pre post d'. colls st ''geo_upload_rule'' = pre @ d # post
                    \<and> colls st' ''geo_upload_rule'' = pre @ d' # post
                    \<and> map_of d' = (map_of d)(''featureclass'' \<mapsto> member W body ''featureclass'',
                                             ''mapping'' \<mapsto> JObj m))"
proof (cases "find_one (colls st ''geo_upload_rule'') (JStr ruleId)")
  case None
  then have "update_first (JStr ruleId)
       [(''featureclass'', member W body ''featureclass''), (''mapping'', JObj m)]
       (colls st ''geo_upload_rule'') = None"
    by (simp add: update_first_None)
  then show ?thesis using None
    by (simp add: post_rule_valid [OF assms] update_one_def set_fields_def)
next
  case (Some d)
  let ?upd = "[(''featureclass'', member W body ''featureclass''), (''mapping'', JObj m)]"
  from update_first_split [OF Some, of ?upd] obtain pre post where
    p: "colls st ''geo_upload_rule'' = pre @ d # post"
    "update_first (JStr ruleId) ?upd (colls st ''geo_upload_rule'') = Some (pre @ set_fields ?upd d # post, set_fields ?upd d \<noteq> d)"
    by blast
  have m: "map_of (set_fields ?upd d) = (map_of d)(''featureclass'' \<mapsto> member W body ''featureclass'',
                                             ''mapping'' \<mapsto> JObj m)"
    by (simp add: set_fields_def update_conv')
  show ?thesis using Some p m
    by (auto simp add: post_rule_valid [OF assms] update_one_def)
qed

section \<open>The claims\<close>

text \<open>
  \<^bold>\<open>C1.\<close> When the rule of an upload is found and some feature of the batch fails the
  mapping (its \<^verbatim>\<open>type\<close> is not \<^verbatim>\<open>"Feature"\<close>, or the property its \<^verbatim>\<open>_id\<close> is
  mapped from resolves to a falsy value), the handler throws and no collection of the
  store has changed: in particular the number of documents of the rule's feature
  collection is what it was. (The index of that collection may have been ensured by then;
  this adds no document.) The property is resolved through the prototype chain, as line
  168 does: a source key such as \<^verbatim>\<open>constructor\<close>, which every object inherits, resolves
  to a truthy value and is no failure.
\<close>

theorem upload_aborts_before_write:
  assumes "find_one (colls st ''geo_upload_rule'') (JStr ruleId) = Some rule"
    and "f \<in> set (elements (member W body ''features''))"
    and "get_prop W f ''type'' \<noteq> Inr (JStr ''Feature'') \<or>
         (\<exists>entries src v. object_entries (member W (JObj rule) ''mapping'') = Inr entries
            \<and> (''_id'', src) \<in> set entries
            \<and> resolve W (member W f ''properties'') src = Inr v \<and> \<not> truthy v)"
  shows "(\<exists>e. fst (post_upload W st ruleId body) = Inl e)
         \<and> colls (snd (post_upload W st ruleId body)) = colls st
         \<and> (\<forall>c. length (colls (snd (post_upload W st ruleId body)) c) = length (colls st c))"
proof -
  obtain e where e: "map_feature W (member W (JObj rule) ''mapping'') f = Inl e"
    using map_feature_invalid [OF assms(3)] by blast
  obtain e' where e':
    "map_features W (member W (JObj rule) ''mapping'') (elements (member W body ''features'')) = Inl e'"
    using map_features_invalid [OF assms(2) e] by blast
  show ?thesis using post_upload_aborts [OF assms(1) e'] by simp
qed

theorem upload_aborts_before_write_witness:
  "find_one (colls poi_db ''geo_upload_rule'') (JStr ''r1'') = Some poi_rule
   \<and> nameless \<in> set (elements (member plain_env mixed_batch ''features''))
   \<and> resolve plain_env (member plain_env nameless ''properties'') (JStr ''code'') = Inr JUndefined
   \<and> (\<exists>e. fst (post_upload plain_env poi_db ''r1'' mixed_batch) = Inl e)
   \<and> colls (snd (post_upload plain_env poi_db ''r1'' mixed_batch)) = colls poi_db
   \<and> length (colls (snd (post_upload plain_env poi_db ''r1'' mixed_batch)) ''geo_poi'') = 1"
proof -
  have a: "find_one (colls poi_db ''geo_upload_rule'') (JStr ''r1'') = Some poi_rule"
    by (simp add: poi_db_def poi_rule_def find_one_def doc_id_def)
  have b: "nameless \<in> set (elements (member plain_env mixed_batch ''features''))"
    by (simp add: mixed_batch_def member_def)
  have c: "resolve plain_env (member plain_env nameless ''properties'') (JStr ''code'') = Inr JUndefined"
    by (simp add: nameless_def resolve_def member_def nullish_def object_prototype_def)
  have d: "get_prop plain_env nameless ''type'' \<noteq> Inr (JStr ''Feature'') \<or>
         (\<exists>entries src v. object_entries (member plain_env (JObj poi_rule) ''mapping'') = Inr entries
            \<and> (''_id'', src) \<in> set entries
            \<and> resolve plain_env (member plain_env nameless ''properties'') src = Inr v \<and> \<not> truthy v)"
  proof -
    have "object_entries (member plain_env (JObj poi_rule) ''mapping'') =
            Inr [(''_id'', JStr ''code''), (''name'', JStr ''label'')]
          \<and> (''_id'', JStr ''code'') \<in> set [(''_id'', JStr ''code''), (''name'', JStr ''label'')]
          \<and> resolve plain_env (member plain_env nameless ''properties'') (JStr ''code'') = Inr JUndefined
          \<and> \<not> truthy JUndefined"
      using c by (simp add: poi_rule_def member_def)
    then show ?thesis by blast
  qed
  have l: "length (colls poi_db ''geo_poi'') = 1"
    by (simp add: poi_db_def)
  show ?thesis
    using upload_aborts_before_write [OF a b d] a b c l by simp
qed

text \<open>
  \<^bold>\<open>C2.\<close> The specification has every validation error answered with status 400. The handlers
  throw the validation errors of the two write endpoints without a \<^verbatim>\<open>status\<close>, so the
  error-handling middleware answers them with status 500 and the body
  \<^verbatim>\<open>{ error: <message> }\<close>; only the invalid coordinates of the query, where the handler
  sets the status, are answered with 400.
\<close>

theorem validation_errors_answered:
  "respond (fst (post_rule W st ruleId (JObj []))) =
     Response 500 (JObj [(''error'', JStr ''featureclass is required'')])
   \<and> respond (fst (post_rule W st ruleId (JObj [(''featureclass'', JStr ''bad name'')]))) =
     Response 500 (JObj [(''error'', JStr ''featureclass must be alphanumerical'')])
   \<and> respond (fst (post_rule W st ruleId (JObj [(''featureclass'', JStr ''poi'')]))) =
     Response 500 (JObj [(''error'', JStr ''mapping must be an object'')])
   \<and> respond (fst (post_rule W st ruleId
        (JObj [(''featureclass'', JStr ''poi''), (''mapping'', JObj [(''name'', JStr ''label'')])]))) =
     Response 500 (JObj [(''error'', JStr ''mapping must contain _id'')])
   \<and> respond (fst (post_upload W st ruleId (JObj [(''type'', JStr ''Feature'')]))) =
     Response 500 (JObj [(''error'', JStr ''Body must be a valid GeoJSON FeatureCollection'')])
   \<and> respond (fst (post_upload W poi_db ''r1''
        (JObj [(''type'', JStr ''FeatureCollection''), (''features'', JArr [point])]))) =
     Response 500 (JObj [(''error'', JStr ''All items must be GeoJSON Features'')])
   \<and> respond (fst (post_upload W poi_db ''r1'' mixed_batch)) =
     Response 500 (JObj [(''error'', JStr ''Feature missing _id value from mapping'')])
   \<and> respond (fst (post_upload W poi_db ''r1''
        (JObj [(''type'', JStr ''FeatureCollection''), (''features'', JArr [])]))) =
     Response 500 (JObj [(''error'', JStr ''No valid features to insert'')])
   \<and> respond (get_features W st featureclass NaN lat0 parsed) =
     Response 400 (JObj [(''error'', JStr ''Invalid coordinates'')])"
proof -
  have f: "find_one (colls poi_db ''geo_upload_rule'') (JStr ''r1'') = Some poi_rule"
    by (simp add: poi_db_def poi_rule_def find_one_def doc_id_def)
  have fc: "to_string W (member W (JObj poi_rule) ''featureclass'') = Inr ''poi''"
    by (simp add: poi_rule_def member_def)
  have mp: "member W (JObj poi_rule) ''mapping'' = JObj [(''_id'', JStr ''code''), (''name'', JStr ''label'')]"
    by (simp add: poi_rule_def member_def)
  have r1: "respond (fst (post_rule W st ruleId (JObj []))) =
     Response 500 (JObj [(''error'', JStr ''featureclass is required'')])"
    by (simp add: post_rule_def nullish_def respond_def error_handler_def member_def
        object_prototype_def)
  have r2: "respond (fst (post_rule W st ruleId (JObj [(''featureclass'', JStr ''bad name'')]))) =
     Response 500 (JObj [(''error'', JStr ''featureclass must be alphanumerical'')])"
    by (simp add: post_rule_def nullish_def respond_def error_handler_def member_def
        object_prototype_def word_test_def word_char_def)
  have r3: "respond (fst (post_rule W st ruleId (JObj [(''featureclass'', JStr ''poi'')]))) =
     Response 500 (JObj [(''error'', JStr ''mapping must be an object'')])"
    by (simp add: post_rule_def nullish_def respond_def error_handler_def member_def
        object_prototype_def word_test_def word_char_def)
  have r4: "respond (fst (post_rule W st ruleId
        (JObj [(''featureclass'', JStr ''poi''), (''mapping'', JObj [(''name'', JStr ''label'')])]))) =
     Response 500 (JObj [(''error'', JStr ''mapping must contain _id'')])"
    by (simp add: post_rule_def nullish_def respond_def error_handler_def member_def
        object_prototype_def has_property_def word_test_def word_char_def)
  have u1: "respond (fst (post_upload W st ruleId (JObj [(''type'', JStr ''Feature'')]))) =
     Response 500 (JObj [(''error'', JStr ''Body must be a valid GeoJSON FeatureCollection'')])"
    by (simp add: post_upload_def nullish_def respond_def error_handler_def member_def)
  have u2: "respond (fst (post_upload W poi_db ''r1''
        (JObj [(''type'', JStr ''FeatureCollection''), (''features'', JArr [point])]))) =
     Response 500 (JObj [(''error'', JStr ''All items must be GeoJSON Features'')])"
  proof -
    have "map_features W (JObj [(''_id'', JStr ''code''), (''name'', JStr ''label'')]) [point] =
            Inl (JsError ''All items must be GeoJSON Features'' None)"
      by (simp add: map_feature_def get_prop_def nullish_def member_def point_def)
    then show ?thesis using f fc mp
      by (simp add: post_upload_def Let_def nullish_def respond_def error_handler_def member_def)
  qed
  have u3: "respond (fst (post_upload W poi_db ''r1'' mixed_batch)) =
     Response 500 (JObj [(''error'', JStr ''Feature missing _id value from mapping'')])"
  proof -
    have c: "\<exists>op. map_feature W (JObj [(''_id'', JStr ''code''), (''name'', JStr ''label'')]) cafe = Inr op"
      by (simp add: map_feature_def get_prop_def nullish_def member_def cafe_def resolve_def
          assign_def new_object_def mapped_id_def)
    have n: "map_feature W (JObj [(''_id'', JStr ''code''), (''name'', JStr ''label'')]) nameless =
            Inl (JsError ''Feature missing _id value from mapping'' None)"
      by (simp add: map_feature_def get_prop_def nullish_def member_def nameless_def resolve_def
          object_prototype_def)
    have "map_features W (JObj [(''_id'', JStr ''code''), (''name'', JStr ''label'')]) [cafe, nameless] =
            Inl (JsError ''Feature missing _id value from mapping'' None)"
      using c n by auto
    then show ?thesis using f fc mp
      by (simp add: post_upload_def Let_def nullish_def respond_def error_handler_def member_def
          mixed_batch_def)
  qed
  have u4: "respond (fst (post_upload W poi_db ''r1''
        (JObj [(''type'', JStr ''FeatureCollection''), (''features'', JArr [])]))) =
     Response 500 (JObj [(''error'', JStr ''No valid features to insert'')])"
    using f fc mp
    by (simp add: post_upload_def Let_def nullish_def respond_def error_handler_def member_def)
  have q: "respond (get_features W st featureclass NaN lat0 parsed) =
     Response 400 (JObj [(''error'', JStr ''Invalid coordinates'')])"
    by (simp add: get_features_def Let_def isNaN_def respond_def error_handler_def)
  show ?thesis using r1 r2 r3 r4 u1 u2 u3 u4 q by blast
qed

theorem validation_errors_answered_witness:
  "respond (fst (post_rule plain_env poi_db ''r1'' (JObj []))) =
     Response 500 (JObj [(''error'', JStr ''featureclass is required'')])
   \<and> respond (fst (post_upload plain_env poi_db ''r1'' mixed_batch)) =
     Response 500 (JObj [(''error'', JStr ''Feature missing _id value from mapping'')])
   \<and> respond (get_features plain_env poi_db ''poi'' NaN (Fin 0) NaN) =
     Response 400 (JObj [(''error'', JStr ''Invalid coordinates'')])"
  using validation_errors_answered [where W = plain_env and st = poi_db and ruleId = "''r1''"
      and featureclass = "''poi''" and ?lat0.0 = "Fin 0" and parsed = NaN]
  by blast

text \<open>
  \<^bold>\<open>C3.\<close> The specification and the comment of line 226 promise a longitude in
  \<open>(-180, 180]\<close>. At longitude 0, latitude 100 the handler computes
  \<open>y = cos \<phi> * sin 0\<close>, a negative number times the positive zero, which is the negative
  zero; \<open>x\<close> is negative, and \<^verbatim>\<open>Math.atan2\<close> of the negative zero and a negative \<open>x\<close>
  is \<open>-\<pi>\<close>. The longitude sent to the store is \<open>-180\<close>, outside the promised range; the
  latitude is within its range. (Rounding is idealised away: the handler's latitude is
  80 up to rounding.)
\<close>

theorem normalized_leaves_range:
  "fst (normalized (Fin 0) (Fin 100)) = Fin (- 180)
   \<and> \<not> canonical_lng (fst (normalized (Fin 0) (Fin 100)))
   \<and> canonical_lat (snd (normalized (Fin 0) (Fin 100)))"
  by (simp add: normalized_0_100 canonical_lng_def canonical_lat_def js_le_def)

text \<open>
  \<^bold>\<open>C4.\<close> For every radius \<open>r > 0\<close> the zoom tier the query handler computes is
  \<open>max(1, floor(-log2(r / \<pi>)))\<close>; the tier of the radius \<open>\<pi>\<close> is 1; and the tier does
  not increase when the radius increases.
\<close>

theorem zoom_tier:
  "(0 < r \<longrightarrow> zoom (Fin r) = Fin (of_int (max 1 \<lfloor>- log 2 (r / pi)\<rfloor>)))
   \<and> zoom (Fin pi) = Fin 1
   \<and> (0 < r1 \<and> r1 \<le> r2 \<longrightarrow> js_le (zoom (Fin r2)) (zoom (Fin r1)))"
  using zoom_formula [of r] zoom_formula [of pi] zoom_antimono [of r1 r2] by simp

theorem zoom_tier_witness:
  "(0::real) < pi / 8 \<and> zoom (Fin (pi / 8)) = Fin 3 \<and> zoom (Fin pi) = Fin 1
   \<and> pi / 8 \<le> pi \<and> js_le (zoom (Fin pi)) (zoom (Fin (pi / 8)))"
  using zoom_tier [of "pi / 8" "pi / 8" pi] log2_eighth by (simp add: js_le_def)

text \<open>
  \<^bold>\<open>C5.\<close> The specification gives the radius \<open>\<pi>/4\<close> the tier 3. The handler computes
  \<open>-log2((\<pi>/4)/\<pi>) = 2\<close>, so the tier of the radius \<open>\<pi>/4\<close> is 2, not 3.
\<close>

theorem zoom_quarter_pi: "zoom (Fin (pi / 4)) = Fin 2"
  using log2_quarter by (simp add: zoom_formula)

theorem zoom_quarter_pi_not_3: "zoom (Fin (pi / 4)) \<noteq> Fin 3"
  using log2_quarter by (simp add: zoom_formula)

text \<open>
  \<^bold>\<open>C6.\<close> The specification has the mapping engine give every target field other than
  \<^verbatim>\<open>_id\<close> the feature's property of the source name, an absent property giving an
  absent or undefined attribute and no error. The example of the specification is mapped
  as it says: under the mapping \<^verbatim>\<open>{_id: "code", name: "label"}\<close> the feature with the
  properties \<^verbatim>\<open>{code: "A1", label: "Cafe"}\<close> and the geometry \<open>g\<close> becomes
  \<^verbatim>\<open>{_id: "A1", name: "Cafe", geometry: g}\<close>. But line 168 reads the property through
  the prototype chain and converts the source to a property key, and line 173 assigns
  through the prototype chain. For the same feature:

  \<^item> under the mapping \<^verbatim>\<open>{_id: "code", name: "constructor"}\<close> the properties have no
    \<^verbatim>\<open>constructor\<close>, yet \<^verbatim>\<open>name\<close> is not undefined: it is the function \<^verbatim>\<open>Object\<close>
    that every object inherits;

  \<^item> under the mapping \<^verbatim>\<open>{_id: "code", name: {toString: "x"}}\<close> the conversion of the
    source to a key throws a \<^verbatim>\<open>TypeError\<close>, and the batch is refused;

  \<^item> under the mapping \<^verbatim>\<open>{_id: "code", __proto__: "label"}\<close> the assignment runs the
    accessor of \<^verbatim>\<open>Object.prototype\<close>, which ignores a string: the document has no
    attribute of the name of that target field.
\<close>

theorem mapping_engine_inherited:
  "map_feature W (JObj [(''_id'', JStr ''code''), (''name'', JStr ''label'')])
      (JObj [(''type'', JStr ''Feature''),
             (''properties'', JObj [(''code'', JStr ''A1''), (''label'', JStr ''Cafe'')]),
             (''geometry'', g)])
     = Inr (JStr ''A1'', [(''_id'', JStr ''A1''), (''name'', JStr ''Cafe''), (''geometry'', g)])
   \<and> map_feature W (JObj [(''_id'', JStr ''code''), (''name'', JStr ''constructor'')])
      (JObj [(''type'', JStr ''Feature''),
             (''properties'', JObj [(''code'', JStr ''A1''), (''label'', JStr ''Cafe'')]),
             (''geometry'', g)])
     = Inr (JStr ''A1'', [(''_id'', JStr ''A1''), (''name'', JFunction ''Object''), (''geometry'', g)])
   \<and> map_feature W (JObj [(''_id'', JStr ''code''), (''name'', JObj [(''toString'', JStr ''x'')])])
      (JObj [(''type'', JStr ''Feature''),
             (''properties'', JObj [(''code'', JStr ''A1''), (''label'', JStr ''Cafe'')]),
             (''geometry'', g)])
     = Inl TypeError
   \<and> map_feature W (JObj [(''_id'', JStr ''code''), (''__proto__'', JStr ''label'')])
      (JObj [(''type'', JStr ''Feature''),
             (''properties'', JObj [(''code'', JStr ''A1''), (''label'', JStr ''Cafe'')]),
             (''geometry'', g)])
     = Inr (JStr ''A1'', [(''_id'', JStr ''A1''), (''geometry'', g)])"
proof -
  let ?f = "JObj [(''type'', JStr ''Feature''),
             (''properties'', JObj [(''code'', JStr ''A1''), (''label'', JStr ''Cafe'')]),
             (''geometry'', g)]"
  have a: "map_feature W (JObj [(''_id'', JStr ''code''), (''name'', JStr ''label'')]) ?f
     = Inr (JStr ''A1'', [(''_id'', JStr ''A1''), (''name'', JStr ''Cafe''), (''geometry'', g)])"
    by (simp add: map_feature_def get_prop_def nullish_def member_def resolve_def
        assign_def new_object_def mapped_id_def read_names_def)
  have b: "map_feature W (JObj [(''_id'', JStr ''code''), (''name'', JStr ''constructor'')]) ?f
     = Inr (JStr ''A1'', [(''_id'', JStr ''A1''), (''name'', JFunction ''Object''), (''geometry'', g)])"
    by (simp add: map_feature_def get_prop_def nullish_def member_def resolve_def
        assign_def new_object_def mapped_id_def read_names_def object_prototype_def)
  have c: "map_feature W (JObj [(''_id'', JStr ''code''), (''name'', JObj [(''toString'', JStr ''x'')])]) ?f
     = Inl TypeError"
    by (simp add: map_feature_def get_prop_def nullish_def member_def resolve_def
        assign_def new_object_def mapped_id_def read_names_def)
  have d: "map_feature W (JObj [(''_id'', JStr ''code''), (''__proto__'', JStr ''label'')]) ?f
     = Inr (JStr ''A1'', [(''_id'', JStr ''A1''), (''geometry'', g)])"
    by (simp add: map_feature_def get_prop_def nullish_def member_def resolve_def
        assign_def new_object_def mapped_id_def read_names_def)
  show ?thesis using a b c d by blast
qed

theorem mapping_engine_inherited_witness:
  "map_feature plain_env (JObj [(''_id'', JStr ''code''), (''name'', JStr ''constructor'')]) cafe
     = Inr (JStr ''A1'', [(''_id'', JStr ''A1''), (''name'', JFunction ''Object''), (''geometry'', point)])
   \<and> map_feature plain_env (JObj [(''_id'', JStr ''code''), (''name'', JObj [(''toString'', JStr ''x'')])]) cafe
     = Inl TypeError
   \<and> map_feature plain_env (JObj [(''_id'', JStr ''code''), (''__proto__'', JStr ''label'')]) cafe
     = Inr (JStr ''A1'', [(''_id'', JStr ''A1''), (''geometry'', point)])"
  using mapping_engine_inherited [where W = plain_env and g = point]
  by (simp add: cafe_def)

text \<open>
  \<^bold>\<open>C7.\<close> Creating a rule fails, and leaves the store as it was, when the featureclass
  is falsy or its text does not match \<^verbatim>\<open>^[A-Za-z0-9_]+$\<close>, or when the mapping is not an
  object with an \<^verbatim>\<open>_id\<close> entry. Otherwise, when the store accepts the write, the handler
  answers and exactly one record of the rule collection is written: a new record
  \<^verbatim>\<open>{_id, featureclass, mapping}\<close> is appended when the identifier is new; when a
  record of that identifier exists, its featureclass and its mapping are replaced as a
  whole by the new ones and every other field of the record is kept, every other record
  and every other collection being unchanged. The record is thus merged at the level of
  its fields and not replaced, which is what \<^verbatim>\<open>$set\<close> does.
\<close>

theorem put_rule_contract:
  "(\<not> truthy (member W body ''featureclass'')
      \<or> (\<forall>s. to_string W (member W body ''featureclass'') = Inr s \<longrightarrow> \<not> word_test s)
      \<or> \<not> (\<exists>m. member W body ''mapping'' = JObj m \<and> ''_id'' \<in> fst ` set m)
    \<longrightarrow> (\<exists>e. post_rule W st ruleId body = (Inl e, st)))
   \<and> (truthy (member W body ''featureclass'')
        \<and> to_string W (member W body ''featureclass'') = Inr s \<and> word_test s
        \<and> member W body ''mapping'' = JObj m \<and> ''_id'' \<in> fst ` set m
        \<and> write_error W ''geo_upload_rule'' (colls st ''geo_upload_rule'') (JStr ruleId)
             [(''featureclass'', member W body ''featureclass''), (''mapping'', JObj m)] = None
    \<longrightarrow> (\<exists>resp st'. post_rule W st ruleId body = (Inr resp, st') \<and> indexed st' = indexed st
           \<and> (\<forall>c. c \<noteq> ''geo_upload_rule'' \<longrightarrow> colls st' c = colls st c)
           \<and> (case find_one (colls st ''geo_upload_rule'') (JStr ruleId) of
                 None \<Rightarrow> colls st' ''geo_upload_rule'' = colls st ''geo_upload_rule'' @
                    [[(''_id'', JStr ruleId), (''featureclass'', member W body ''featureclass''),
                      (''mapping'', JObj m)]]
               | Some d \<Rightarrow> \<exists>pre post d'. colls st ''geo_upload_rule'' = pre @ d # post
                    \<and> colls st' ''geo_upload_rule'' = pre @ d' # post
                    \<and> map_of d' = (map_of d)(''featureclass'' \<mapsto> member W body ''featureclass'',
                                             ''mapping'' \<mapsto> JObj m))))"
  using post_rule_invalid [of W body st ruleId] put_rule_upsert [of W body s m st ruleId]
  by blast

theorem put_rule_contract_witness:
  "\<not> word_test ''bad name''
   \<and> (\<exists>e. post_rule plain_env poi_db ''r1''
              (JObj [(''featureclass'', JStr ''bad name''), (''mapping'', JObj [(''_id'', JStr ''gid'')])])
            = (Inl e, poi_db))
   \<and> word_test ''roads''
   \<and> find_one (colls poi_db ''geo_upload_rule'') (JStr ''r1'') = Some poi_rule
   \<and> (\<exists>resp st'. post_rule plain_env poi_db ''r1''
              (JObj [(''featureclass'', JStr ''roads''), (''mapping'', JObj [(''_id'', JStr ''gid'')])])
            = (Inr resp, st')
         \<and> colls st' ''geo_poi'' = colls poi_db ''geo_poi''
         \<and> (\<exists>d'. colls st' ''geo_upload_rule'' = [d']
               \<and> map_of d' = [''_id'' \<mapsto> JStr ''r1'', ''featureclass'' \<mapsto> JStr ''roads'',
                               ''mapping'' \<mapsto> JObj [(''_id'', JStr ''gid'')]]))"
proof -
  let ?bad = "JObj [(''featureclass'', JStr ''bad name''), (''mapping'', JObj [(''_id'', JStr ''gid'')])]"
  let ?good = "JObj [(''featureclass'', JStr ''roads''), (''mapping'', JObj [(''_id'', JStr ''gid'')])]"
  have nw: "\<not> word_test ''bad name''" by (simp add: word_test_def word_char_def)
  have w: "word_test ''roads''" by (simp add: word_test_def word_char_def)
  have f: "find_one (colls poi_db ''geo_upload_rule'') (JStr ''r1'') = Some poi_rule"
    by (simp add: poi_db_def poi_rule_def find_one_def doc_id_def)
  have bf: "member plain_env ?bad ''featureclass'' = JStr ''bad name''"
    by (simp add: member_def)
  have gf: "member plain_env ?good ''featureclass'' = JStr ''roads''"
    and gm: "member plain_env ?good ''mapping'' = JObj [(''_id'', JStr ''gid'')]"
    by (simp_all add: member_def)
  have acc: "write_error plain_env ''geo_upload_rule'' (colls poi_db ''geo_upload_rule'') (JStr ''r1'')
             [(''featureclass'', JStr ''roads''), (''mapping'', JObj [(''_id'', JStr ''gid'')])] = None"
    by (simp add: plain_env_def)
  have bad: "\<exists>e. post_rule plain_env poi_db ''r1'' ?bad = (Inl e, poi_db)"
    using put_rule_contract [where body = ?bad and W = plain_env and st = poi_db and ruleId = "''r1''"]
      nw bf by simp
  from put_rule_contract [where body = ?good and s = "''roads''" and m = "[(''_id'', JStr ''gid'')]"
      and W = plain_env and st = poi_db and ruleId = "''r1''"] w f gf gm acc
  obtain resp st' pre post d' where g:
    "post_rule plain_env poi_db ''r1'' ?good = (Inr resp, st')"
    "\<forall>c. c \<noteq> ''geo_upload_rule'' \<longrightarrow> colls st' c = colls poi_db c"
    "colls poi_db ''geo_upload_rule'' = pre @ poi_rule # post"
    "colls st' ''geo_upload_rule'' = pre @ d' # post"
    "map_of d' = (map_of poi_rule)(''featureclass'' \<mapsto> JStr ''roads'', ''mapping'' \<mapsto> JObj [(''_id'', JStr ''gid'')])"
    by auto
  have "pre = [] \<and> post = []"
    using g(3) by (simp add: poi_db_def append_eq_Cons_conv Cons_eq_append_conv)
  then have one: "colls st' ''geo_upload_rule'' = [d']" using g(4) by simp
  have m: "map_of d' = [''_id'' \<mapsto> JStr ''r1'', ''featureclass'' \<mapsto> JStr ''roads'',
                               ''mapping'' \<mapsto> JObj [(''_id'', JStr ''gid'')]]"
    by (auto simp: g(5) poi_rule_def fun_eq_iff)
  have "colls st' ''geo_poi'' = colls poi_db ''geo_poi''" using g(2) by simp
  then show ?thesis using nw bad w f g(1) one m by blast
qed

text \<open>
  The specification has a rule with the same identifier fully replaced, never merged
  with the previous content. Three requests on an empty database refute it: the rule
  \<^verbatim>\<open>ra\<close> with the featureclass \<^verbatim>\<open>upload_rule\<close> is created; a feature uploaded under it
  is written to the collection of the rules as the record \<^verbatim>\<open>x\<close>, with a featureclass, a
  mapping, a note and a geometry; the rule \<^verbatim>\<open>x\<close> is posted again. The record \<^verbatim>\<open>x\<close> has
  the new featureclass and the new mapping, and still the note and the geometry of the
  previous content.
\<close>

theorem rule_merged_not_replaced:
  "find_one (colls two_requests ''geo_upload_rule'') (JStr ''x'') =
     Some [(''_id'', JStr ''x''), (''featureclass'', JStr ''poi''),
           (''mapping'', JObj [(''_id'', JStr ''gid'')]),
           (''note'', JStr ''keep''), (''geometry'', point)]
   \<and> find_one (colls three_requests ''geo_upload_rule'') (JStr ''x'') =
     Some [(''_id'', JStr ''x''), (''featureclass'', JStr ''roads''),
           (''mapping'', JObj [(''_id'', JStr ''rid'')]),
           (''note'', JStr ''keep''), (''geometry'', point)]
   \<and> find_one (colls three_requests ''geo_upload_rule'') (JStr ''x'') \<noteq>
     Some [(''_id'', JStr ''x''), (''featureclass'', JStr ''roads''),
           (''mapping'', JObj [(''_id'', JStr ''rid'')])]"
proof -
  let ?ra = "[(''_id'', JStr ''ra''), (''featureclass'', JStr ''upload_rule''),
              (''mapping'', JObj [(''_id'', JStr ''code''), (''featureclass'', JStr ''fc''),
                                  (''mapping'', JStr ''mp''), (''note'', JStr ''memo'')])]"
  let ?x0 = "[(''_id'', JStr ''x''), (''featureclass'', JStr ''poi''),
              (''mapping'', JObj [(''_id'', JStr ''gid'')]),
              (''note'', JStr ''keep''), (''geometry'', point)]"
  let ?x1 = "[(''_id'', JStr ''x''), (''featureclass'', JStr ''roads''),
              (''mapping'', JObj [(''_id'', JStr ''rid'')]),
              (''note'', JStr ''keep''), (''geometry'', point)]"
  have w: "word_test ''upload_rule''" "word_test ''roads''"
    by (simp_all add: word_test_def word_char_def)
  have s1: "colls one_request = (\<lambda>c. [])(''geo_upload_rule'' := [?ra])"
    using w
    by (simp add: one_request_def post_rule_def rule_a_body_def empty_db_def plain_env_def
        Let_def nullish_def member_def has_property_def updateOne_def update_one_def
        set_fields_def)
  have op: "map_features plain_env
              (JObj [(''_id'', JStr ''code''), (''featureclass'', JStr ''fc''),
                     (''mapping'', JStr ''mp''), (''note'', JStr ''memo'')]) [rule_feature]
            = Inr [(JStr ''x'', ?x0)]"
    by (simp add: map_feature_def rule_feature_def get_prop_def nullish_def member_def resolve_def
        assign_def new_object_def mapped_id_def read_names_def)
  have s2: "colls two_requests = (\<lambda>c. [])(''geo_upload_rule'' := [?ra, ?x0])"
    using op
    by (simp add: two_requests_def post_upload_def rule_batch_def s1 Let_def nullish_def
        member_def find_one_def doc_id_def ensureGeospatialIndexForCollection_def
        plain_env_def update_one_def set_fields_def)
  have s3: "colls three_requests = (\<lambda>c. [])(''geo_upload_rule'' := [?ra, ?x1])"
    using w
    by (simp add: three_requests_def post_rule_def rule_x_body_def s2 Let_def nullish_def
        member_def has_property_def updateOne_def plain_env_def update_one_def doc_id_def
        set_fields_def)
  show ?thesis
    by (simp add: s2 s3 find_one_def doc_id_def)
qed

text \<open>
  \<^bold>\<open>C8.\<close> A radius parameter that is absent or not numeric (\<^verbatim>\<open>parseFloat\<close> gives
  \<open>NaN\<close>) makes the radius \<open>\<pi>/2\<close>. For every effective radius \<open>r\<close> the handler sends the
  store the maximal distance \<open>(20000000 / \<pi>) * r\<close> and simplifies with the tolerance
  \<open>0.18 * r\<close>; for \<open>r = 0.1\<close> the tolerance is \<open>0.018\<close>.
\<close>

theorem query_radius:
  "radius_of NaN = Fin (pi / 2)
   \<and> radiusM (Fin r) = Fin (20000000 / pi * r)
   \<and> tolerance (Fin r) = Fin (0.18 * r)
   \<and> tolerance (Fin 0.1) = Fin 0.018
   \<and> (\<not> isNaN lng0 \<and> \<not> isNaN lat0 \<and> radius_of parsed = Fin r \<longrightarrow>
        get_features W st featureclass lng0 lat0 parsed =
          (case find_near W st (''geo_'' @ featureclass) (zoom (Fin r))
                  (normalized lng0 lat0) (Fin (20000000 / pi * r)) of
             Inl e \<Rightarrow> Inl e
           | Inr docs \<Rightarrow>
               (case simplify_all W (Fin (0.18 * r)) docs of
                  Inl e \<Rightarrow> Inl e
                | Inr features \<Rightarrow>
                    Inr (JObj [(''type'', JStr ''FeatureCollection''),
                               (''features'', JArr (filter truthy features))]))))"
proof -
  have d: "tolerance (Fin 0.1) = Fin 0.018"
    by (simp add: tolerance_Fin)
  have e: "get_features W st featureclass lng0 lat0 parsed =
          (case find_near W st (''geo_'' @ featureclass) (zoom (Fin r))
                  (normalized lng0 lat0) (Fin (20000000 / pi * r)) of
             Inl e \<Rightarrow> Inl e
           | Inr docs \<Rightarrow>
               (case simplify_all W (Fin (0.18 * r)) docs of
                  Inl e \<Rightarrow> Inl e
                | Inr features \<Rightarrow>
                    Inr (JObj [(''type'', JStr ''FeatureCollection''),
                               (''features'', JArr (filter truthy features))])))"
    if h: "\<not> isNaN lng0" "\<not> isNaN lat0" "radius_of parsed = Fin r"
    unfolding get_features_ok [OF h(1,2)] h(3) radiusM_Fin tolerance_Fin by (rule refl)
  show ?thesis
    using radius_of_NaN radiusM_Fin [of r] tolerance_Fin [of r] d e by blast
qed

theorem query_radius_witness:
  "\<not> isNaN (Fin 0) \<and> radius_of (Fin 0.1) = Fin 0.1
   \<and> get_features (plain_env\<lparr>simplify := \<lambda>tol feature. Inr (JNum tol)\<rparr>) poi_db ''poi''
        (Fin 0) (Fin 0) (Fin 0.1) =
      Inr (JObj [(''type'', JStr ''FeatureCollection''), (''features'', JArr [JNum (Fin 0.018)])])"
proof -
  let ?W = "plain_env\<lparr>simplify := \<lambda>tol feature. Inr (JNum tol)\<rparr>"
  have r: "radius_of (Fin 0.1) = Fin 0.1"
    by (simp add: radius_of_def num_truthy_def)
  have n: "\<not> isNaN (Fin 0)"
    by (simp add: isNaN_def)
  have "get_features ?W poi_db ''poi'' (Fin 0) (Fin 0) (Fin 0.1) =
          (case find_near ?W poi_db (''geo_'' @ ''poi'') (zoom (Fin 0.1))
                  (normalized (Fin 0) (Fin 0)) (Fin (20000000 / pi * 0.1)) of
             Inl e \<Rightarrow> Inl e
           | Inr docs \<Rightarrow>
               (case simplify_all ?W (Fin (0.18 * 0.1)) docs of
                  Inl e \<Rightarrow> Inl e
                | Inr features \<Rightarrow>
                    Inr (JObj [(''type'', JStr ''FeatureCollection''),
                               (''features'', JArr (filter truthy features))])))"
    using query_radius [where r = "0.1" and ?lng0.0 = "Fin 0" and ?lat0.0 = "Fin 0"
        and parsed = "Fin 0.1" and W = ?W and st = poi_db and featureclass = "''poi''"] r n
    by simp
  then show ?thesis using r n
    by (simp add: find_near_def poi_db_def plain_env_def num_truthy_def)
qed

text \<open>
  \<^bold>\<open>C9.\<close> The specification expects longitude 0, latitude 100 to be normalised to
  latitude 80 and longitude 180. The handler computes latitude 80 (up to rounding, which
  is idealised away) and longitude \<open>-180\<close>: \<open>y\<close> is the negative zero, and
  \<^verbatim>\<open>Math.atan2\<close> of the negative zero and a negative \<open>x\<close> is \<open>-\<pi>\<close>.
\<close>

theorem pole_reflection:
  "normalized (Fin 0) (Fin 100) = (Fin (- 180), Fin 80)
   \<and> normalized (Fin 0) (Fin 100) \<noteq> (Fin 180, Fin 80)"
  by (simp add: normalized_0_100)



end
